theory Spec2Isabelle
  imports Complex_Main
begin

text \<open>
  A model of \<^verbatim>\<open>onedrivesdk/auth_provider.py\<close>: the class \<^verbatim>\<open>AuthProvider\<close> with its
  constructor, \<^verbatim>\<open>authenticate\<close>, \<^verbatim>\<open>authenticate_request\<close>, \<^verbatim>\<open>refresh_token\<close> and
  \<^verbatim>\<open>redeem_refresh_token\<close>. A method becomes a function from the provider and the world
  before the call to the value returned or the exception raised, the provider and the world
  after it. What the methods read from outside (the HTTP provider, \<^verbatim>\<open>json.loads\<close>, the
  clock) is a parameter, so a theorem holds for every behaviour of these.
\<close>

section \<open>Python values and exceptions\<close>

text \<open>
  The values \<^verbatim>\<open>json.loads\<close> produces, and the ones the provider stores: \<^verbatim>\<open>None\<close>,
  booleans, integers, floats (as reals; nan and the infinities are left out), strings,
  lists and dictionaries with string keys. A dictionary is an association list whose
  keys are distinct, as in a Python dict.
\<close>

datatype pyval =
    PNone
  | PBool bool
  | PInt int
  | PFloat real
  | PStr string
  | PList "pyval list"
  | PDict "(string \<times> pyval) list"

text \<open>
  The exceptions of the module. \<open>AttributeError t a\<close>: an object of type \<open>t\<close> has no
  attribute \<open>a\<close>. \<open>OtherError\<close> stands for whatever a capability raises.
\<close>

datatype pyexc =
    KeyError string
  | TypeError string
  | ValueError string
  | AttributeError string string
  | RuntimeError string
  | OtherError string

definition bind_exc :: "pyexc + 'a \<Rightarrow> ('a \<Rightarrow> pyexc + 'b) \<Rightarrow> pyexc + 'b" where
  "bind_exc m f = (case m of Inl e \<Rightarrow> Inl e | Inr x \<Rightarrow> f x)"

fun py_type_name :: "pyval \<Rightarrow> string" where
  "py_type_name PNone = ''NoneType''"
| "py_type_name (PBool b) = ''bool''"
| "py_type_name (PInt n) = ''int''"
| "py_type_name (PFloat r) = ''float''"
| "py_type_name (PStr s) = ''str''"
| "py_type_name (PList xs) = ''list''"
| "py_type_name (PDict kvs) = ''dict''"

text \<open>\<^verbatim>\<open>v[k]\<close> for a string key \<open>k\<close>.\<close>

fun py_getitem :: "pyval \<Rightarrow> string \<Rightarrow> pyexc + pyval" where
  "py_getitem (PDict kvs) k =
     (case map_of kvs k of None \<Rightarrow> Inl (KeyError k) | Some v \<Rightarrow> Inr v)"
| "py_getitem (PStr s) k = Inl (TypeError ''string indices must be integers'')"
| "py_getitem (PList xs) k = Inl (TypeError ''list indices must be integers or slices, not str'')"
| "py_getitem v k = Inl (TypeError ''object is not subscriptable'')"

fun is_substring :: "string \<Rightarrow> string \<Rightarrow> bool" where
  "is_substring k [] = (k = [])"
| "is_substring k (c # cs) = (take (length k) (c # cs) = k \<or> is_substring k cs)"

text \<open>\<^verbatim>\<open>k in v\<close> for a string \<open>k\<close>.\<close>

fun py_contains :: "string \<Rightarrow> pyval \<Rightarrow> pyexc + bool" where
  "py_contains k (PDict kvs) = Inr (k \<in> set (map fst kvs))"
| "py_contains k (PList xs) = Inr (PStr k \<in> set xs)"
| "py_contains k (PStr s) = Inr (is_substring k s)"
| "py_contains k v = Inl (TypeError ''argument is not iterable'')"

text \<open>
  \<^verbatim>\<open>int(v)\<close>. How Python reads a string as an integer is a parameter \<open>p\<close> (\<open>None\<close>: the
  string is no integer literal).
\<close>

fun py_int :: "(string \<Rightarrow> int option) \<Rightarrow> pyval \<Rightarrow> pyexc + int" where
  "py_int p (PInt n) = Inr n"
| "py_int p (PBool b) = Inr (if b then 1 else 0)"
| "py_int p (PFloat r) = Inr (if 0 \<le> r then \<lfloor>r\<rfloor> else \<lceil>r\<rceil>)"
| "py_int p (PStr s) =
     (case p s of None \<Rightarrow> Inl (ValueError ''invalid literal for int() with base 10'')
      | Some n \<Rightarrow> Inr n)"
| "py_int p v = Inl (TypeError ''int() argument must be a string or a number'')"

text \<open>
  \<^verbatim>\<open>v.str()\<close>: none of the types above has an attribute named \<^verbatim>\<open>str\<close>, so the attribute
  lookup raises before anything is called.
\<close>

definition py_call_str :: "pyval \<Rightarrow> pyexc + pyval" where
  "py_call_str v = Inl (AttributeError (py_type_name v) ''str'')"

text \<open>\<^verbatim>\<open>"literal" + v\<close>: defined for a string \<open>v\<close> only.\<close>

fun py_str_add :: "string \<Rightarrow> pyval \<Rightarrow> pyexc + string" where
  "py_str_add a (PStr s) = Inr (a @ s)"
| "py_str_add a v = Inl (TypeError ''can only concatenate str to str'')"

section \<open>The world: clock, HTTP capability, console\<close>

record http_request =
  rq_method :: string
  rq_headers :: "(string \<times> string) list"
  rq_url :: pyval
  rq_data :: "(string \<times> pyval) list"

text \<open>
  What the code reads from outside. \<open>http_provider\<close> answers the request \<open>rq\<close> after the
  requests \<open>sent\<close> earlier: the content of the response or the exception \<^verbatim>\<open>send\<close> raises,
  and the seconds the call took. \<open>json_loads\<close> is \<^verbatim>\<open>json.loads\<close>, \<open>int_of_str\<close> is
  \<^verbatim>\<open>int\<close> on strings, \<open>str_of\<close> is \<^verbatim>\<open>str\<close> on values that are not strings.
\<close>

record env =
  http_provider :: "http_request list \<Rightarrow> http_request \<Rightarrow> (pyexc + string) \<times> real"
  json_loads :: "string \<Rightarrow> pyexc + pyval"
  int_of_str :: "string \<Rightarrow> int option"
  str_of :: "pyval \<Rightarrow> string"

text \<open>
  The state outside the provider: the clock \<^verbatim>\<open>time.time()\<close> reads, the requests sent so
  far, what was printed, and a count of the entries into \<^verbatim>\<open>refresh_token\<close> (kept for the
  claims that count calls; the code does not read it). The clock moves while a request is
  under way and while the program sleeps; reading it takes no time, so two reads with
  nothing between them give the same value. The capabilities do not touch the provider.
\<close>

record world =
  now :: real
  sent :: "http_request list"
  printed :: "pyval list"
  refresh_token_calls :: nat

definition send :: "env \<Rightarrow> http_request \<Rightarrow> world \<Rightarrow> (pyexc + string) \<times> world" where
  "send env rq w =
     (case http_provider env (sent w) rq of
        (r, d) \<Rightarrow> (r, w\<lparr>now := now w + d, sent := sent w @ [rq]\<rparr>))"

text \<open>\<^verbatim>\<open>time.sleep(v)\<close>: the seconds slept, or the error for a negative or non-numeric \<open>v\<close>.\<close>

fun sleep_seconds :: "pyval \<Rightarrow> pyexc + real" where
  "sleep_seconds (PInt n) =
     (if n < 0 then Inl (ValueError ''sleep length must be non-negative'') else Inr (of_int n))"
| "sleep_seconds (PBool b) = Inr (if b then 1 else 0)"
| "sleep_seconds (PFloat r) =
     (if r < 0 then Inl (ValueError ''sleep length must be non-negative'') else Inr r)"
| "sleep_seconds v = Inl (TypeError ''a number is required'')"

definition time_sleep :: "pyval \<Rightarrow> world \<Rightarrow> pyexc + world" where
  "time_sleep v w =
     (case sleep_seconds v of Inl e \<Rightarrow> Inl e | Inr d \<Rightarrow> Inr (w\<lparr>now := now w + d\<rparr>))"

definition form_headers :: "(string \<times> string) list" where
  "form_headers = [(''Content-Type'', ''application/x-www-form-urlencoded'')]"

section \<open>Session\<close>

text \<open>
  Modelled from the spec: the class \<^verbatim>\<open>Session\<close> (module \<^verbatim>\<open>session\<close>) is imported by the
  source and not part of it. The record has the fields of the spec's data model, with the
  expiry kept as an absolute instant.
\<close>

record session =
  s_token_type :: pyval
  s_expires_at :: real
  s_access_token :: pyval
  s_refresh_token :: pyval
  s_client_id :: pyval
  s_auth_token_url :: pyval

text \<open>
  Modelled from the spec: \<^verbatim>\<open>Session.__init__\<close> is missing. It takes the six positional
  arguments \<^verbatim>\<open>authenticate\<close> passes, and the expiry is now plus \<^verbatim>\<open>int(expires_in)\<close>.
\<close>

definition Session_init ::
  "env \<Rightarrow> pyval \<Rightarrow> pyval \<Rightarrow> pyval \<Rightarrow> pyval \<Rightarrow> pyval \<Rightarrow> pyval \<Rightarrow> world \<Rightarrow> pyexc + session" where
  "Session_init env token_type expires_in access_token client_id auth_token_url refresh_token w =
     bind_exc (py_int (int_of_str env) expires_in) (\<lambda>n.
       Inr \<lparr>s_token_type = token_type,
            s_expires_at = now w + of_int n,
            s_access_token = access_token,
            s_refresh_token = refresh_token,
            s_client_id = client_id,
            s_auth_token_url = auth_token_url\<rparr>)"

text \<open>
  Modelled from the spec: \<^verbatim>\<open>Session.is_expired\<close> is missing. It holds when the current
  time has reached the expiry.
\<close>

definition is_expired :: "session \<Rightarrow> world \<Rightarrow> bool" where
  "is_expired s w = (s_expires_at s \<le> now w)"

text \<open>
  Modelled from the spec: \<^verbatim>\<open>Session.refresh_session\<close> is missing. Its parameters are
  \<^verbatim>\<open>expires_in\<close>, \<^verbatim>\<open>access_token\<close> and \<^verbatim>\<open>refresh_token\<close>, the three arguments
  \<^verbatim>\<open>AuthProvider.refresh_token\<close> passes; it sets the expiry to now plus
  \<^verbatim>\<open>int(expires_in)\<close> and stores the two tokens. A call with another number of positional
  arguments is Python's \<^verbatim>\<open>TypeError\<close> and leaves the session, with its old access token,
  as it was.
\<close>

fun refresh_session :: "env \<Rightarrow> session \<Rightarrow> pyval list \<Rightarrow> world \<Rightarrow> pyexc + session" where
  "refresh_session env s [expires_in, access_token, refresh_token] w =
     bind_exc (py_int (int_of_str env) expires_in) (\<lambda>n.
       Inr (s\<lparr>s_expires_at := now w + of_int n,
              s_access_token := access_token,
              s_refresh_token := refresh_token\<rparr>))"
| "refresh_session env s args w =
     Inl (TypeError ''refresh_session() got a wrong number of positional arguments'')"

section \<open>AuthProvider\<close>

text \<open>
  The provider's fields. The HTTP provider is the \<open>http_provider\<close> of the environment;
  \<^verbatim>\<open>session_type\<close> is the default \<^verbatim>\<open>Session\<close>; an event loop is an object identity.
\<close>

record auth_provider =
  p_client_id :: pyval
  p_tenant_id :: pyval
  p_session :: "session option"
  p_auth_token_url :: pyval
  p_loop :: "nat option"

text \<open>
  \<^verbatim>\<open>__init__(http_provider, client_id, tenant_id, access_token, session_type, loop)\<close>.
  \<open>py34\<close> says whether \<^verbatim>\<open>sys.version_info >= (3, 4, 0)\<close>; \<open>get_event_loop\<close> is what
  \<^verbatim>\<open>asyncio.get_event_loop()\<close> returns or raises. A parameter left out by the caller is
  \<open>PNone\<close> (\<open>None\<close> for the loop).
\<close>

definition AuthProvider_init ::
  "bool \<Rightarrow> pyexc + nat \<Rightarrow> pyval \<Rightarrow> pyval \<Rightarrow> nat option \<Rightarrow> pyexc + auth_provider" where
  "AuthProvider_init py34 get_event_loop client_id tenant_id loop =
     bind_exc (py_str_add ''https://login.microsoftonline.com/'' tenant_id) (\<lambda>u.
       let self = \<lparr>p_client_id = client_id,
                   p_tenant_id = tenant_id,
                   p_session = None,
                   p_auth_token_url = PStr (u @ ''/oauth2/token''),
                   p_loop = None\<rparr>
       in if py34
          then (case loop of
                  Some l \<Rightarrow> Inr (self\<lparr>p_loop := Some l\<rparr>)
                | None \<Rightarrow> bind_exc get_event_loop (\<lambda>l. Inr (self\<lparr>p_loop := Some l\<rparr>)))
          else Inr self)"

text \<open>The property \<^verbatim>\<open>access_token\<close>.\<close>

definition access_token :: "auth_provider \<Rightarrow> pyval" where
  "access_token p = (case p_session p of Some s \<Rightarrow> s_access_token s | None \<Rightarrow> PNone)"

definition msg_timed_out :: string where
  "msg_timed_out = ''Timed out waiting for user to verify''"

definition msg_not_authenticated_request :: string where
  "msg_not_authenticated_request =
     ''Session must be authenticated '' @ [CHR 0x0A]
     @ ''                before applying authentication to a request.''"

definition msg_not_authenticated_refresh :: string where
  "msg_not_authenticated_refresh =
     ''Session must be authenticated '' @ [CHR 0x0A]
     @ ''                before refreshing token.''"

definition msg_not_authenticated_redeem :: string where
  "msg_not_authenticated_redeem =
     ''Session must be authenticated'' @ [CHR 0x0A]
     @ ''                before refreshing token.''"

definition msg_missing_refresh_token :: string where
  "msg_missing_refresh_token = ''Refresh token not present.''"

subsection \<open>\<^verbatim>\<open>refresh_token\<close> and \<^verbatim>\<open>redeem_refresh_token\<close>\<close>

definition refresh_request :: "session \<Rightarrow> http_request" where
  "refresh_request s =
     \<lparr>rq_method = ''POST'',
      rq_headers = form_headers,
      rq_url = s_auth_token_url s,
      rq_data = [(''refresh_token'', s_refresh_token s),
                 (''client_id'', s_client_id s),
                 (''grant_type'', PStr ''refresh_token'')]\<rparr>"

text \<open>
  Both operations read the response the same way: \<^verbatim>\<open>json.loads(response.content)\<close>, then
  the three arguments of the session update, \<^verbatim>\<open>rcont["expires_in"]\<close>,
  \<^verbatim>\<open>rcont["access_token"]\<close> and \<^verbatim>\<open>rcont["refresh_token"]\<close>, in that order.
\<close>

definition read_token_response :: "env \<Rightarrow> pyexc + string \<Rightarrow> pyexc + pyval \<times> pyval \<times> pyval" where
  "read_token_response env response =
     bind_exc response (\<lambda>content.
     bind_exc (json_loads env content) (\<lambda>rcont.
     bind_exc (py_getitem rcont ''expires_in'') (\<lambda>expires_in.
     bind_exc (py_getitem rcont ''access_token'') (\<lambda>access_token.
     bind_exc (py_getitem rcont ''refresh_token'') (\<lambda>refresh_token.
     Inr (expires_in, access_token, refresh_token))))))"

definition refresh_token ::
  "env \<Rightarrow> auth_provider \<Rightarrow> world \<Rightarrow> (pyexc + unit) \<times> auth_provider \<times> world" where
  "refresh_token env p w =
     (let w0 = w\<lparr>refresh_token_calls := Suc (refresh_token_calls w)\<rparr> in
      case p_session p of
        None \<Rightarrow> (Inl (RuntimeError msg_not_authenticated_refresh), p, w0)
      | Some s \<Rightarrow>
          if s_refresh_token s = PNone
          then (Inl (RuntimeError msg_missing_refresh_token), p, w0)
          else
            (case send env (refresh_request s) w0 of
               (response, w1) \<Rightarrow>
                 (case bind_exc (read_token_response env response)
                         (\<lambda>(expires_in, access_token, refresh_token).
                            refresh_session env s [expires_in, access_token, refresh_token] w1) of
                    Inl e \<Rightarrow> (Inl e, p, w1)
                  | Inr s' \<Rightarrow> (Inr (), p\<lparr>p_session := Some s'\<rparr>, w1))))"

definition redeem_request :: "auth_provider \<Rightarrow> session \<Rightarrow> pyval \<Rightarrow> http_request" where
  "redeem_request p s resource =
     \<lparr>rq_method = ''POST'',
      rq_headers = form_headers,
      rq_url = p_auth_token_url p,
      rq_data = [(''client_id'', s_client_id s),
                 (''refresh_token'', s_refresh_token s),
                 (''grant_type'', PStr ''refresh_token''),
                 (''resource'', resource)]\<rparr>"

definition redeem_refresh_token ::
  "env \<Rightarrow> auth_provider \<Rightarrow> pyval \<Rightarrow> world \<Rightarrow> (pyexc + unit) \<times> auth_provider \<times> world" where
  "redeem_refresh_token env p resource w =
     (case p_session p of
        None \<Rightarrow> (Inl (RuntimeError msg_not_authenticated_redeem), p, w)
      | Some s \<Rightarrow>
          if s_refresh_token s = PNone
          then (Inl (RuntimeError msg_missing_refresh_token), p, w)
          else
            (case send env (redeem_request p s resource) w of
               (response, w1) \<Rightarrow>
                 (case bind_exc (read_token_response env response)
                         (\<lambda>(expires_in, access_token, refresh_token).
                            refresh_session env s
                              [expires_in, PStr [], access_token, refresh_token] w1) of
                    Inl e \<Rightarrow> (Inl e, p, w1)
                  | Inr s' \<Rightarrow> (Inr (), p\<lparr>p_session := Some s'\<rparr>, w1))))"

subsection \<open>\<^verbatim>\<open>authenticate_request\<close>\<close>

text \<open>
  Modelled from the spec: \<^verbatim>\<open>HeaderOption\<close> (module \<^verbatim>\<open>options\<close>) and the request's
  \<^verbatim>\<open>append_option\<close> are not part of the source. A request is the list of the options
  appended to it, in order.
\<close>

datatype req_option = HeaderOption string string

type_synonym request = "req_option list"

definition append_option :: "request \<Rightarrow> req_option \<Rightarrow> request" where
  "append_option request opt = request @ [opt]"

text \<open>\<^verbatim>\<open>"bearer {}".format(v)\<close>\<close>

definition format_bearer :: "env \<Rightarrow> pyval \<Rightarrow> string" where
  "format_bearer env v = ''bearer '' @ (case v of PStr s \<Rightarrow> s | _ \<Rightarrow> str_of env v)"

definition attach_header ::
  "env \<Rightarrow> auth_provider \<Rightarrow> request \<Rightarrow> world \<Rightarrow> (pyexc + unit) \<times> auth_provider \<times> request \<times> world" where
  "attach_header env p request w =
     (case p_session p of
        None \<Rightarrow> (Inl (AttributeError ''NoneType'' ''access_token''), p, request, w)
      | Some s \<Rightarrow>
          (Inr (), p,
           append_option request
             (HeaderOption ''Authorization'' (format_bearer env (s_access_token s))),
           w))"

definition authenticate_request ::
  "env \<Rightarrow> auth_provider \<Rightarrow> request \<Rightarrow> world \<Rightarrow> (pyexc + unit) \<times> auth_provider \<times> request \<times> world" where
  "authenticate_request env p request w =
     (case p_session p of
        None \<Rightarrow> (Inl (RuntimeError msg_not_authenticated_request), p, request, w)
      | Some s \<Rightarrow>
          if is_expired s w
          then (case refresh_token env p w of
                  (Inl e, p', w') \<Rightarrow> (Inl e, p', request, w')
                | (Inr u, p', w') \<Rightarrow> attach_header env p' request w')
          else attach_header env p request w)"

subsection \<open>\<^verbatim>\<open>authenticate\<close>\<close>

text \<open>
  The polling loop \<^verbatim>\<open>while time.time() < t_end\<close>. Its body has no \<^verbatim>\<open>break\<close>: after a
  response that parses, \<^verbatim>\<open>rcont\<close> is assigned and the condition is tested again; after
  a failure of \<^verbatim>\<open>send\<close> or of \<^verbatim>\<open>json.loads\<close>, the handler sleeps \<^verbatim>\<open>interval\<close>, and what
  \<^verbatim>\<open>time.sleep\<close> raises leaves the loop. The result is \<open>None\<close> when the loop runs for ever.
\<close>

partial_function (option) poll_loop ::
  "env \<Rightarrow> http_request \<Rightarrow> pyval \<Rightarrow> real \<Rightarrow> pyval \<Rightarrow> world \<Rightarrow> ((pyexc + pyval) \<times> world) option" where
  "poll_loop env rq interval t_end rcont w =
     (if now w < t_end
      then (case send env rq w of
              (response, w1) \<Rightarrow>
                (case bind_exc response (json_loads env) of
                   Inr rcont' \<Rightarrow> poll_loop env rq interval t_end rcont' w1
                 | Inl e \<Rightarrow>
                     (case time_sleep interval w1 of
                        Inl e' \<Rightarrow> Some (Inl e', w1)
                      | Inr w2 \<Rightarrow> poll_loop env rq interval t_end rcont w2)))
      else Some (Inr rcont, w))"

definition poll_request :: "auth_provider \<Rightarrow> pyval \<Rightarrow> pyval \<Rightarrow> pyval \<Rightarrow> http_request" where
  "poll_request p auth_url resource device_code =
     \<lparr>rq_method = ''POST'',
      rq_headers = form_headers,
      rq_url = auth_url,
      rq_data = [(''resource'', resource),
                 (''client_id'', p_client_id p),
                 (''grant_type'', PStr ''device_code''),
                 (''code'', device_code)]\<rparr>"

text \<open>
  The arguments of the \<^verbatim>\<open>Session\<close> call after the loop, evaluated from left to right;
  the last one is \<^verbatim>\<open>rcont["refresh_token"] if "refresh_token" in rcont else None\<close>.
\<close>

definition new_session :: "env \<Rightarrow> auth_provider \<Rightarrow> pyval \<Rightarrow> world \<Rightarrow> pyexc + session" where
  "new_session env p rcont w =
     bind_exc (py_getitem rcont ''token_type'') (\<lambda>a1.
     bind_exc (py_getitem rcont ''expires_in'') (\<lambda>a2.
     bind_exc (py_getitem rcont ''access_token'') (\<lambda>a3.
     bind_exc (py_contains ''refresh_token'' rcont) (\<lambda>b.
     bind_exc (if b then py_getitem rcont ''refresh_token'' else Inr PNone) (\<lambda>a6.
     Session_init env a1 a2 a3 (p_client_id p) (p_auth_token_url p) a6 w)))))"

text \<open>
  The second half of \<^verbatim>\<open>authenticate\<close>, from the polling parameters on: the deadline, the
  loop, and the test after it.
\<close>

definition authenticate_poll ::
  "env \<Rightarrow> auth_provider \<Rightarrow> pyval \<Rightarrow> pyval \<Rightarrow> pyval \<Rightarrow> pyval \<Rightarrow> pyval \<Rightarrow> world
     \<Rightarrow> ((pyexc + unit) \<times> auth_provider \<times> world) option" where
  "authenticate_poll env p resource auth_url device_code expires_in interval w =
     (case py_int (int_of_str env) expires_in of
        Inl e \<Rightarrow> Some (Inl e, p, w)
      | Inr n \<Rightarrow>
          (let t_end = now w + of_int n in
           case poll_loop env (poll_request p auth_url resource device_code) interval t_end PNone w of
             None \<Rightarrow> None
           | Some (Inl e, w1) \<Rightarrow> Some (Inl e, p, w1)
           | Some (Inr rcont, w1) \<Rightarrow>
               if now w1 \<ge> t_end
               then Some (Inl (RuntimeError msg_timed_out), p, w1)
               else (case new_session env p rcont w1 of
                       Inl e \<Rightarrow> Some (Inl e, p, w1)
                     | Inr s \<Rightarrow> Some (Inr (), p\<lparr>p_session := Some s\<rparr>, w1))))"

definition init_request :: "auth_provider \<Rightarrow> pyval \<Rightarrow> http_request" where
  "init_request p resource =
     \<lparr>rq_method = ''POST'',
      rq_headers = form_headers,
      rq_url = p_auth_token_url p,
      rq_data = [(''client_id'', p_client_id p), (''resource'', resource)]\<rparr>"

text \<open>
  The first half: the initiation request and the four fields read from its response,
  the last one through \<^verbatim>\<open>.str()\<close>.
\<close>

definition read_init :: "env \<Rightarrow> pyexc + string \<Rightarrow> pyexc + pyval \<times> pyval \<times> pyval \<times> pyval" where
  "read_init env response =
     bind_exc response (\<lambda>content.
     bind_exc (json_loads env content) (\<lambda>rcont.
     bind_exc (py_getitem rcont ''device_code'') (\<lambda>device_code.
     bind_exc (py_getitem rcont ''expires_in'') (\<lambda>expires_in.
     bind_exc (py_getitem rcont ''interval'') (\<lambda>interval.
     bind_exc (py_getitem rcont ''message'') (\<lambda>m.
     bind_exc (py_call_str m) (\<lambda>message.
     Inr (device_code, expires_in, interval, message))))))))"

definition authenticate ::
  "env \<Rightarrow> auth_provider \<Rightarrow> pyval \<Rightarrow> world \<Rightarrow> ((pyexc + unit) \<times> auth_provider \<times> world) option" where
  "authenticate env p resource w =
     (case send env (init_request p resource) w of
        (response, w1) \<Rightarrow>
          (case read_init env response of
             Inl e \<Rightarrow> Some (Inl e, p, w1)
           | Inr (device_code, expires_in, interval, message) \<Rightarrow>
               authenticate_poll env p resource (p_auth_token_url p) device_code expires_in interval
                 (w1\<lparr>printed := printed w1 @ [message]\<rparr>)))"

section \<open>Example runs\<close>

text \<open>
  A provider for the tenant \<^verbatim>\<open>common\<close> with no session, a world at time zero, and
  capabilities whose every call takes one second.
\<close>

definition ex_url :: pyval where
  "ex_url = PStr ''https://login.microsoftonline.com/common/oauth2/token''"

definition ex_provider :: auth_provider where
  "ex_provider = \<lparr>p_client_id = PStr ''cid'', p_tenant_id = PStr ''common'', p_session = None,
                   p_auth_token_url = ex_url, p_loop = None\<rparr>"

definition ex_world :: world where
  "ex_world = \<lparr>now = 0, sent = [], printed = [], refresh_token_calls = 0\<rparr>"

definition ex_init_json :: pyval where
  "ex_init_json = PDict [(''device_code'', PStr ''D''), (''expires_in'', PInt 3),
                         (''interval'', PInt 1), (''message'', PStr ''visit the page'')]"

definition ex_token_json :: pyval where
  "ex_token_json = PDict [(''token_type'', PStr ''bearer''), (''expires_in'', PInt 3600),
                          (''access_token'', PStr ''new''), (''refresh_token'', PStr ''R2'')]"

definition ex_json_loads :: "string \<Rightarrow> pyexc + pyval" where
  "ex_json_loads c =
     (if c = ''init'' then Inr ex_init_json
      else if c = ''token'' then Inr ex_token_json
      else if c = ''partial'' then
        Inr (PDict [(''expires_in'', PInt 3600), (''access_token'', PStr ''new'')])
      else Inl (ValueError ''no JSON''))"

text \<open>The first request is answered by the initiation document, the later ones by a token.\<close>

definition ex_env :: env where
  "ex_env = \<lparr>http_provider = (\<lambda>hist rq. (if hist = [] then Inr ''init'' else Inr ''token'', 1)),
              json_loads = ex_json_loads,
              int_of_str = (\<lambda>s. None),
              str_of = (\<lambda>v. ''?'')\<rparr>"

text \<open>Every request is answered by a token.\<close>

definition ex_env_token :: env where
  "ex_env_token = ex_env\<lparr>http_provider := (\<lambda>hist rq. (Inr ''token'', 1))\<rparr>"

text \<open>Every request fails; is answered by a page that is no JSON; by a token without
  \<^verbatim>\<open>refresh_token\<close>.\<close>

definition ex_env_down :: env where
  "ex_env_down =
     ex_env\<lparr>http_provider := (\<lambda>hist rq. (Inl (OtherError ''connection refused''), 1))\<rparr>"

definition ex_env_html :: env where
  "ex_env_html = ex_env\<lparr>http_provider := (\<lambda>hist rq. (Inr ''<html>'', 1))\<rparr>"

definition ex_env_partial :: env where
  "ex_env_partial = ex_env\<lparr>http_provider := (\<lambda>hist rq. (Inr ''partial'', 1))\<rparr>"

text \<open>A session that expires at time 10, and the provider holding it.\<close>

definition ex_session :: session where
  "ex_session = \<lparr>s_token_type = PStr ''bearer'', s_expires_at = 10, s_access_token = PStr ''old'',
                  s_refresh_token = PStr ''R'', s_client_id = PStr ''cid'',
                  s_auth_token_url = PStr ''https://login.example/token''\<rparr>"

definition ex_authed :: auth_provider where
  "ex_authed = ex_provider\<lparr>p_session := Some ex_session\<rparr>"

definition ex_session_noref :: session where
  "ex_session_noref = ex_session\<lparr>s_refresh_token := PNone\<rparr>"

definition ex_authed_noref :: auth_provider where
  "ex_authed_noref = ex_provider\<lparr>p_session := Some ex_session_noref\<rparr>"

definition ex_init_rq :: http_request where
  "ex_init_rq = init_request ex_provider (PStr ''res'')"

definition ex_poll_rq :: http_request where
  "ex_poll_rq = poll_request ex_provider ex_url (PStr ''res'') (PStr ''D'')"

text \<open>
  An initiation document that leaves five seconds for the polling, and capabilities that
  answer the first request by it, fail on the second, and answer the later ones by a token.
\<close>

definition ex_init_json_long :: pyval where
  "ex_init_json_long = PDict [(''device_code'', PStr ''D''), (''expires_in'', PInt 5),
                              (''interval'', PInt 1), (''message'', PStr ''visit the page'')]"

definition ex_env_late :: env where
  "ex_env_late =
     \<lparr>http_provider =
        (\<lambda>hist rq. (if hist = [] then Inr ''init5''
                     else if length hist = 1 then Inl (OtherError ''connection refused'')
                     else Inr ''token'', 1)),
      json_loads = (\<lambda>c. if c = ''init5'' then Inr ex_init_json_long else ex_json_loads c),
      int_of_str = (\<lambda>s. None),
      str_of = (\<lambda>v. ''?'')\<rparr>"

text \<open>The first request is answered by the initiation document, every later one fails.\<close>

definition ex_env_polls_down :: env where
  "ex_env_polls_down =
     ex_env\<lparr>http_provider :=
       (\<lambda>hist rq. (if hist = [] then Inr ''init''
                    else Inl (OtherError ''connection refused''), 1))\<rparr>"

text \<open>Every request is answered by a document with a \<^verbatim>\<open>message\<close> and nothing else.\<close>

definition ex_message_json :: pyval where
  "ex_message_json = PDict [(''message'', PStr ''m'')]"

definition ex_env_message_only :: env where
  "ex_env_message_only =
     \<lparr>http_provider = (\<lambda>hist rq. (Inr ''message'', 1)),
      json_loads = (\<lambda>c. if c = ''message'' then Inr ex_message_json else ex_json_loads c),
      int_of_str = (\<lambda>s. None),
      str_of = (\<lambda>v. ''?'')\<rparr>"

text \<open>The world after the initiation request and the printing of its message.\<close>

definition ex_world_polling :: "real \<Rightarrow> http_request list \<Rightarrow> world" where
  "ex_world_polling t polls =
     \<lparr>now = t, sent = ex_init_rq # polls, printed = [PStr ''visit the page''],
      refresh_token_calls = 0\<rparr>"

section \<open>Properties\<close>

subsection \<open>The polling loop\<close>

text \<open>When the loop ends normally, the clock has reached the deadline.\<close>

lemma poll_loop_exit_aux:
  assumes "poll_loop env rq i t_end r w = Some y"
  shows "case y of (Inr r', w') \<Rightarrow> t_end \<le> now w' | (Inl e, w') \<Rightarrow> True"
proof (rule poll_loop.raw_induct
    [where P = "\<lambda>env rq i t_end r w y.
                  case y of (Inr r', w') \<Rightarrow> t_end \<le> now w' | (Inl e, w') \<Rightarrow> True",
     OF _ assms], goal_cases)
  case (1 f env rq i t_end r w y)
  note IH = 1(1) and body = 1(2)
  show ?case
  proof (cases "now w < t_end")
    case False
    with body show ?thesis by auto
  next
    case True
    obtain response w1 where s: "send env rq w = (response, w1)"
      by (cases "send env rq w")
    show ?thesis
    proof (cases "bind_exc response (json_loads env)")
      case (Inr j)
      with True s body have "f env rq i t_end j w1 = Some y" by simp
      then show ?thesis by (rule IH)
    next
      case failed: (Inl e)
      show ?thesis
      proof (cases "time_sleep i w1")
        case (Inl e')
        with True s failed body show ?thesis by auto
      next
        case (Inr w2)
        with True s failed body have "f env rq i t_end r w2 = Some y" by simp
        then show ?thesis by (rule IH)
      qed
    qed
  qed
qed

lemma poll_loop_exit_time:
  "poll_loop env rq i t_end r w = Some (Inr r', w') \<Longrightarrow> t_end \<le> now w'"
  using poll_loop_exit_aux [of env rq i t_end r w "(Inr r', w')"] by simp

text \<open>
  So the test after the loop always takes the \<^verbatim>\<open>raise\<close> branch: whenever the second half
  of \<^verbatim>\<open>authenticate\<close> returns, it has raised and the provider is as before.
\<close>

lemma authenticate_poll_never_creates:
  "authenticate_poll env p resource auth_url device_code expires_in interval w = Some (res, p', w')
   \<Longrightarrow> p' = p \<and> (\<exists>e. res = Inl e)"
  by (auto simp: authenticate_poll_def Let_def
      split: sum.splits option.splits prod.splits if_splits dest: poll_loop_exit_time)

text \<open>The first half always raises, whatever the initiation response is.\<close>

lemma read_init_raises: "\<exists>e. read_init env response = Inl e"
  by (auto simp: read_init_def bind_exc_def py_call_str_def split: sum.splits)

lemma authenticate_always_raises:
  "\<exists>e. authenticate env p resource w =
         Some (Inl e, p, snd (send env (init_request p resource) w))"
  using read_init_raises [of env "fst (send env (init_request p resource) w)"]
  by (auto simp: authenticate_def split: prod.splits sum.splits)

text \<open>One round of the loop: after a parsed response, and after a failed \<^verbatim>\<open>send\<close>.\<close>

lemma poll_loop_parsed:
  "now w < t_end \<Longrightarrow> send env rq w = (Inr c, w1) \<Longrightarrow> json_loads env c = Inr j
   \<Longrightarrow> poll_loop env rq i t_end r w = poll_loop env rq i t_end j w1"
  by (subst poll_loop.simps) (simp add: bind_exc_def)

lemma poll_loop_send_raises:
  "now w < t_end \<Longrightarrow> send env rq w = (Inl e, w1) \<Longrightarrow> time_sleep i w1 = Inr w2
   \<Longrightarrow> poll_loop env rq i t_end r w = poll_loop env rq i t_end r w2"
  by (subst poll_loop.simps) (simp add: bind_exc_def)

text \<open>
  The loop ends when every poll fails, provided \<^verbatim>\<open>interval\<close> is a positive number and no
  call takes negative time: each round moves the clock by at least \<^verbatim>\<open>interval\<close>. It ends
  with \<^verbatim>\<open>rcont\<close> as it was, and the polling half raises the timeout.
\<close>

lemma poll_loop_all_fail:
  assumes dt: "sleep_seconds interval = Inr dt" "0 < dt"
    and fail: "\<And>hist. case http_provider env hist rq of
                 (r, d) \<Rightarrow> 0 \<le> d \<and> (\<exists>e. bind_exc r (json_loads env) = Inl e)"
  shows "\<exists>w'. poll_loop env rq interval t_end rcont w = Some (Inr rcont, w') \<and> t_end \<le> now w'"
proof (induction "nat \<lceil>(t_end - now w) / dt\<rceil>" arbitrary: w rule: less_induct)
  case less
  show ?case
  proof (cases "now w < t_end")
    case False
    then show ?thesis by (subst poll_loop.simps) simp
  next
    case True
    obtain r d where h: "http_provider env (sent w) rq = (r, d)"
      by (cases "http_provider env (sent w) rq")
    with fail [of "sent w"] obtain e where d: "0 \<le> d" and e: "bind_exc r (json_loads env) = Inl e"
      by auto
    define w2 where "w2 = w\<lparr>sent := sent w @ [rq], now := now w + d + dt\<rparr>"
    have step: "poll_loop env rq interval t_end rcont w = poll_loop env rq interval t_end rcont w2"
      using True h e dt(1) by (subst poll_loop.simps) (simp add: send_def time_sleep_def w2_def)
    have "(t_end - now w2) / dt \<le> (t_end - now w) / dt - 1"
      using d dt(2) by (simp add: w2_def field_simps)
    then have "\<lceil>(t_end - now w2) / dt\<rceil> \<le> \<lceil>(t_end - now w) / dt\<rceil> - 1"
      by (metis ceiling_mono ceiling_diff_one)
    moreover have "0 < \<lceil>(t_end - now w) / dt\<rceil>"
      using True dt(2) by (simp add: ceiling_less_iff)
    ultimately have "nat \<lceil>(t_end - now w2) / dt\<rceil> < nat \<lceil>(t_end - now w) / dt\<rceil>"
      by linarith
    from less [OF this] step show ?thesis by simp
  qed
qed

lemma authenticate_poll_all_fail:
  assumes "py_int (int_of_str env) expires_in = Inr n"
    and "sleep_seconds interval = Inr dt" and "0 < dt"
    and "\<And>hist. case http_provider env hist (poll_request p auth_url resource device_code) of
                 (r, d) \<Rightarrow> 0 \<le> d \<and> (\<exists>e. bind_exc r (json_loads env) = Inl e)"
  shows "\<exists>w'. authenticate_poll env p resource auth_url device_code expires_in interval w =
                Some (Inl (RuntimeError msg_timed_out), p, w')"
proof -
  from poll_loop_all_fail [OF assms(2,3,4), of "now w + of_int n" PNone w]
  obtain w' where "poll_loop env (poll_request p auth_url resource device_code) interval
                     (now w + of_int n) PNone w = Some (Inr PNone, w')"
    and "now w + of_int n \<le> now w'"
    by blast
  with assms(1) show ?thesis by (simp add: authenticate_poll_def)
qed

subsection \<open>Construction\<close>

text \<open>
  Claim C10. Constructing an AuthProvider with the default \<^verbatim>\<open>tenant_id\<close> of \<^verbatim>\<open>None\<close>
  fails with the \<^verbatim>\<open>TypeError\<close> of the string concatenation; and whenever the constructor
  returns a provider, the tenant id given is a string \<open>t\<close>, the provider stores it, and its
  \<^verbatim>\<open>auth_token_url\<close> is \<^verbatim>\<open>https://login.microsoftonline.com/\<close> followed by \<open>t\<close> and
  \<^verbatim>\<open>/oauth2/token\<close>.
\<close>

theorem AuthProvider_init_tenant:
  "AuthProvider_init py34 get_event_loop client_id PNone loop =
     Inl (TypeError ''can only concatenate str to str'')
   \<and> (AuthProvider_init py34 get_event_loop client_id tenant_id loop = Inr p
        \<longrightarrow> (\<exists>t. tenant_id = PStr t \<and> p_tenant_id p = PStr t
                 \<and> p_auth_token_url p =
                     PStr (''https://login.microsoftonline.com/'' @ t @ ''/oauth2/token'')))"
  by (cases tenant_id)
     (auto simp: AuthProvider_init_def bind_exc_def Let_def
           split: if_splits option.splits sum.splits)

theorem AuthProvider_init_tenant_witness:
  "AuthProvider_init True (Inr 7) (PStr ''cid'') (PStr ''common'') None =
     Inr (ex_provider\<lparr>p_loop := Some 7\<rparr>)
   \<and> p_auth_token_url (ex_provider\<lparr>p_loop := Some 7\<rparr>) =
       PStr (''https://login.microsoftonline.com/'' @ ''common'' @ ''/oauth2/token'')"
proof -
  have h: "AuthProvider_init True (Inr 7) (PStr ''cid'') (PStr ''common'') None =
             Inr (ex_provider\<lparr>p_loop := Some 7\<rparr>)"
    by (simp add: AuthProvider_init_def bind_exc_def ex_provider_def ex_url_def)
  from AuthProvider_init_tenant
         [of True "Inr 7" "PStr ''cid''" None "PStr ''common''" "ex_provider\<lparr>p_loop := Some 7\<rparr>"] h
  show ?thesis by auto
qed

subsection \<open>\<^verbatim>\<open>authenticate\<close>: the initiation response\<close>

text \<open>
  Claim C8 fails on the code as stated: the initiation response parses as JSON and its
  \<^verbatim>\<open>message\<close> field is a string, but it has no \<^verbatim>\<open>device_code\<close>, and \<^verbatim>\<open>authenticate\<close>
  raises the \<^verbatim>\<open>KeyError\<close> of \<^verbatim>\<open>rcont["device_code"]\<close>, three lines before the attribute
  access.
\<close>

theorem authenticate_message_only_counterexample:
  "http_provider ex_env_message_only (sent ex_world) (init_request ex_provider (PStr ''res''))
     = (Inr ''message'', 1)
   \<and> json_loads ex_env_message_only ''message'' = Inr ex_message_json
   \<and> py_getitem ex_message_json ''message'' = Inr (PStr ''m'')
   \<and> authenticate ex_env_message_only ex_provider (PStr ''res'') ex_world =
       Some (Inl (KeyError ''device_code''), ex_provider,
             ex_world\<lparr>now := 1, sent := [init_request ex_provider (PStr ''res'')]\<rparr>)"
  by (simp add: authenticate_def send_def read_init_def bind_exc_def
      ex_env_message_only_def ex_message_json_def ex_world_def)

text \<open>
  Claim C8, amended. When the initiation response parses as JSON and its \<^verbatim>\<open>message\<close>
  field is a string, \<^verbatim>\<open>authenticate\<close> raises: the world afterwards holds the initiation
  request as the only new request (no polling request), nothing has been printed, and the
  provider, with its session, is as before. When the response also has \<^verbatim>\<open>device_code\<close>,
  \<^verbatim>\<open>expires_in\<close> and \<^verbatim>\<open>interval\<close>, the error is the \<^verbatim>\<open>AttributeError\<close> of looking up
  \<^verbatim>\<open>str\<close> on a string; otherwise it is the error of the first of these three reads that
  fails.
\<close>

theorem authenticate_raises_at_message_str:
  assumes "http_provider env (sent w) (init_request p resource) = (Inr content, d)"
    and "json_loads env content = Inr rcont"
    and "py_getitem rcont ''message'' = Inr (PStr m)"
  shows "\<exists>e. authenticate env p resource w =
             Some (Inl e, p, w\<lparr>now := now w + d, sent := sent w @ [init_request p resource]\<rparr>)
           \<and> ((\<exists>a b c. py_getitem rcont ''device_code'' = Inr a
                      \<and> py_getitem rcont ''expires_in'' = Inr b
                      \<and> py_getitem rcont ''interval'' = Inr c)
                \<longrightarrow> e = AttributeError ''str'' ''str'')
           \<and> (\<forall>x. py_getitem rcont ''device_code'' = Inl x \<longrightarrow> e = x)
           \<and> (\<forall>x a. py_getitem rcont ''device_code'' = Inr a
                     \<and> py_getitem rcont ''expires_in'' = Inl x \<longrightarrow> e = x)
           \<and> (\<forall>x a b. py_getitem rcont ''device_code'' = Inr a
                     \<and> py_getitem rcont ''expires_in'' = Inr b
                     \<and> py_getitem rcont ''interval'' = Inl x \<longrightarrow> e = x)"
proof -
  obtain e where e: "read_init env (Inr content) = Inl e"
    using read_init_raises [of env "Inr content"] by blast
  have run: "authenticate env p resource w =
      Some (Inl e, p, w\<lparr>now := now w + d, sent := sent w @ [init_request p resource]\<rparr>)"
    using assms(1) e by (simp add: authenticate_def send_def)
  have "read_init env (Inr content) =
      bind_exc (py_getitem rcont ''device_code'') (\<lambda>device_code.
      bind_exc (py_getitem rcont ''expires_in'') (\<lambda>expires_in.
      bind_exc (py_getitem rcont ''interval'') (\<lambda>interval.
      Inl (AttributeError ''str'' ''str''))))"
    using assms(2,3)
    by (auto simp: read_init_def bind_exc_def py_call_str_def split: sum.splits)
  with e have rd: "bind_exc (py_getitem rcont ''device_code'') (\<lambda>device_code.
      bind_exc (py_getitem rcont ''expires_in'') (\<lambda>expires_in.
      bind_exc (py_getitem rcont ''interval'') (\<lambda>interval.
      Inl (AttributeError ''str'' ''str'')))) =
      (Inl e :: pyexc + pyval \<times> pyval \<times> pyval \<times> pyval)"
    by simp
  have 1: "(\<exists>a b c. py_getitem rcont ''device_code'' = Inr a
                      \<and> py_getitem rcont ''expires_in'' = Inr b
                      \<and> py_getitem rcont ''interval'' = Inr c)
                \<longrightarrow> e = AttributeError ''str'' ''str''"
    using rd by (auto simp: bind_exc_def)
  have 2: "\<forall>x. py_getitem rcont ''device_code'' = Inl x \<longrightarrow> e = x"
    using rd by (auto simp: bind_exc_def)
  have 3: "\<forall>x a. py_getitem rcont ''device_code'' = Inr a
                     \<and> py_getitem rcont ''expires_in'' = Inl x \<longrightarrow> e = x"
    using rd by (auto simp: bind_exc_def)
  have 4: "\<forall>x a b. py_getitem rcont ''device_code'' = Inr a
                     \<and> py_getitem rcont ''expires_in'' = Inr b
                     \<and> py_getitem rcont ''interval'' = Inl x \<longrightarrow> e = x"
    using rd by (auto simp: bind_exc_def)
  from run 1 2 3 4 show ?thesis by blast
qed

theorem authenticate_raises_at_message_str_witness:
  "authenticate ex_env ex_provider (PStr ''res'') ex_world =
     Some (Inl (AttributeError ''str'' ''str''), ex_provider,
           ex_world\<lparr>now := 1, sent := [init_request ex_provider (PStr ''res'')]\<rparr>)
   \<and> authenticate ex_env_message_only ex_provider (PStr ''res'') ex_world =
     Some (Inl (KeyError ''device_code''), ex_provider,
           ex_world\<lparr>now := 1, sent := [init_request ex_provider (PStr ''res'')]\<rparr>)"
  using authenticate_raises_at_message_str
    [of ex_env ex_world ex_provider "PStr ''res''" "''init''" 1 ex_init_json "''visit the page''"]
    authenticate_raises_at_message_str
    [of ex_env_message_only ex_world ex_provider "PStr ''res''" "''message''" 1 ex_message_json
        "''m''"]
  by (simp add: ex_env_def ex_env_message_only_def ex_world_def ex_json_loads_def
      ex_init_json_def ex_message_json_def)

subsection \<open>\<^verbatim>\<open>authenticate_request\<close> without a session\<close>

text \<open>
  Claim C5. With no session, \<^verbatim>\<open>authenticate_request\<close> raises the \<^verbatim>\<open>RuntimeError\<close>
  "Session must be authenticated before applying authentication to a request"; the
  world is the one before the call (so nothing was sent) and the request has no new option.
\<close>

theorem authenticate_request_no_session:
  "p_session p = None
   \<Longrightarrow> authenticate_request env p request w =
         (Inl (RuntimeError msg_not_authenticated_request), p, request, w)"
  by (simp add: authenticate_request_def)

theorem authenticate_request_no_session_witness:
  "authenticate_request ex_env ex_provider [] ex_world =
     (Inl (RuntimeError msg_not_authenticated_request), ex_provider, [], ex_world)"
  using authenticate_request_no_session [of ex_provider ex_env "[]" ex_world]
  by (simp add: ex_provider_def)

subsection \<open>\<^verbatim>\<open>refresh_token\<close>: preconditions\<close>

text \<open>
  Claim C6. \<^verbatim>\<open>refresh_token\<close> raises "Session must be authenticated before refreshing
  token" when there is no session, and "Refresh token not present." when the session's
  refresh token is \<^verbatim>\<open>None\<close>. In both cases the provider is unchanged and the world differs
  from the one before only in the count of calls: no request was sent.
\<close>

theorem refresh_token_preconditions:
  "(p_session p = None \<longrightarrow>
      refresh_token env p w =
        (Inl (RuntimeError msg_not_authenticated_refresh), p,
         w\<lparr>refresh_token_calls := Suc (refresh_token_calls w)\<rparr>))
   \<and> (p_session p = Some s \<and> s_refresh_token s = PNone \<longrightarrow>
      refresh_token env p w =
        (Inl (RuntimeError msg_missing_refresh_token), p,
         w\<lparr>refresh_token_calls := Suc (refresh_token_calls w)\<rparr>))"
  by (simp add: refresh_token_def)

theorem refresh_token_preconditions_witness:
  "refresh_token ex_env ex_provider ex_world =
     (Inl (RuntimeError msg_not_authenticated_refresh), ex_provider,
      ex_world\<lparr>refresh_token_calls := 1\<rparr>)
   \<and> refresh_token ex_env ex_authed_noref ex_world =
     (Inl (RuntimeError msg_missing_refresh_token), ex_authed_noref,
      ex_world\<lparr>refresh_token_calls := 1\<rparr>)"
  using refresh_token_preconditions [of ex_provider ex_env ex_world ex_session_noref]
    refresh_token_preconditions [of ex_authed_noref ex_env ex_world ex_session_noref]
  by (simp add: ex_provider_def ex_world_def ex_session_def ex_session_noref_def
      ex_authed_noref_def)

subsection \<open>The requests of \<^verbatim>\<open>refresh_token\<close> and \<^verbatim>\<open>redeem_refresh_token\<close>\<close>

lemma refresh_token_sent:
  "p_session p = Some s \<Longrightarrow> s_refresh_token s \<noteq> PNone
   \<Longrightarrow> sent (snd (snd (refresh_token env p w))) = sent w @ [refresh_request s]"
  by (auto simp: refresh_token_def send_def Let_def split: prod.splits sum.splits)

lemma redeem_refresh_token_sent:
  "p_session p = Some s \<Longrightarrow> s_refresh_token s \<noteq> PNone
   \<Longrightarrow> sent (snd (snd (redeem_refresh_token env p resource w)))
       = sent w @ [redeem_request p s resource]"
  by (auto simp: redeem_refresh_token_def send_def Let_def split: prod.splits sum.splits)

text \<open>
  Claim C7. With a session that holds a refresh token, \<^verbatim>\<open>refresh_token\<close> sends exactly one
  request, a POST of the form \<^verbatim>\<open>refresh_token\<close>, \<^verbatim>\<open>client_id\<close>,
  \<^verbatim>\<open>grant_type = "refresh_token"\<close> to the session's \<^verbatim>\<open>auth_token_url\<close>, and
  \<^verbatim>\<open>redeem_refresh_token\<close> sends exactly one request, a POST of the form \<^verbatim>\<open>client_id\<close>,
  \<^verbatim>\<open>refresh_token\<close>, \<^verbatim>\<open>grant_type = "refresh_token"\<close>, \<^verbatim>\<open>resource\<close> to the provider's
  \<^verbatim>\<open>auth_token_url\<close>; when the two URLs differ, the two requests go to different URLs.
\<close>

theorem refresh_and_redeem_endpoints:
  assumes "p_session p = Some s" and "s_refresh_token s \<noteq> PNone"
  shows "sent (snd (snd (refresh_token env p w))) =
           sent w @ [\<lparr>rq_method = ''POST'',
                      rq_headers = [(''Content-Type'', ''application/x-www-form-urlencoded'')],
                      rq_url = s_auth_token_url s,
                      rq_data = [(''refresh_token'', s_refresh_token s),
                                 (''client_id'', s_client_id s),
                                 (''grant_type'', PStr ''refresh_token'')]\<rparr>]
       \<and> sent (snd (snd (redeem_refresh_token env p resource w))) =
           sent w @ [\<lparr>rq_method = ''POST'',
                      rq_headers = [(''Content-Type'', ''application/x-www-form-urlencoded'')],
                      rq_url = p_auth_token_url p,
                      rq_data = [(''client_id'', s_client_id s),
                                 (''refresh_token'', s_refresh_token s),
                                 (''grant_type'', PStr ''refresh_token''),
                                 (''resource'', resource)]\<rparr>]
       \<and> (s_auth_token_url s \<noteq> p_auth_token_url p \<longrightarrow>
            rq_url (last (sent (snd (snd (refresh_token env p w)))))
            \<noteq> rq_url (last (sent (snd (snd (redeem_refresh_token env p resource w))))))"
  using refresh_token_sent [OF assms, of env w]
    redeem_refresh_token_sent [OF assms, of env resource w]
  by (simp add: refresh_request_def redeem_request_def form_headers_def)

theorem refresh_and_redeem_endpoints_witness:
  "rq_url (last (sent (snd (snd (refresh_token ex_env_token ex_authed ex_world)))))
     = PStr ''https://login.example/token''
   \<and> rq_url (last (sent (snd (snd (redeem_refresh_token ex_env_token ex_authed
                                      (PStr ''res'') ex_world)))))
     = PStr ''https://login.microsoftonline.com/common/oauth2/token''"
  using refresh_and_redeem_endpoints [of ex_authed ex_session ex_env_token ex_world "PStr ''res''"]
  by (simp add: ex_authed_def ex_provider_def ex_session_def ex_url_def)

subsection \<open>Failures before the session update\<close>

lemma read_token_response_missing:
  assumes "json_loads env c = Inr rcont"
    and "k \<in> {''expires_in'', ''access_token'', ''refresh_token''}"
    and "py_getitem rcont k = Inl e"
  shows "\<exists>k' e'. k' \<in> {''expires_in'', ''access_token'', ''refresh_token''}
           \<and> py_getitem rcont k' = Inl e' \<and> read_token_response env (Inr c) = Inl e'"
proof (cases "py_getitem rcont ''expires_in''")
  case (Inl e1)
  with assms(1) have "read_token_response env (Inr c) = Inl e1"
    by (simp add: read_token_response_def bind_exc_def)
  with Inl show ?thesis by blast
next
  case a: (Inr a1)
  show ?thesis
  proof (cases "py_getitem rcont ''access_token''")
    case (Inl e2)
    with assms(1) a have "read_token_response env (Inr c) = Inl e2"
      by (simp add: read_token_response_def bind_exc_def)
    with Inl show ?thesis by blast
  next
    case b: (Inr a2)
    show ?thesis
    proof (cases "py_getitem rcont ''refresh_token''")
      case (Inl e3)
      with assms(1) a b have "read_token_response env (Inr c) = Inl e3"
        by (simp add: read_token_response_def bind_exc_def)
      with Inl show ?thesis by blast
    next
      case (Inr a3)
      with a b assms(2,3) show ?thesis by auto
    qed
  qed
qed

lemma refresh_token_read_fails:
  assumes "p_session p = Some s" and "s_refresh_token s \<noteq> PNone"
    and "read_token_response env (fst (http_provider env (sent w) (refresh_request s))) = Inl e"
  shows "fst (refresh_token env p w) = Inl e \<and> fst (snd (refresh_token env p w)) = p"
proof -
  obtain response d where h: "http_provider env (sent w) (refresh_request s) = (response, d)"
    by (cases "http_provider env (sent w) (refresh_request s)")
  with assms(3) have "read_token_response env response = Inl e" by simp
  with assms(1,2) h show ?thesis
    by (simp add: refresh_token_def send_def Let_def bind_exc_def)
qed

lemma redeem_refresh_token_read_fails:
  assumes "p_session p = Some s" and "s_refresh_token s \<noteq> PNone"
    and "read_token_response env
           (fst (http_provider env (sent w) (redeem_request p s resource))) = Inl e"
  shows "fst (redeem_refresh_token env p resource w) = Inl e
         \<and> fst (snd (redeem_refresh_token env p resource w)) = p"
proof -
  obtain response d
    where h: "http_provider env (sent w) (redeem_request p s resource) = (response, d)"
    by (cases "http_provider env (sent w) (redeem_request p s resource)")
  with assms(3) have "read_token_response env response = Inl e" by simp
  with assms(1,2) h show ?thesis
    by (simp add: redeem_refresh_token_def send_def bind_exc_def)
qed

text \<open>Whatever the reason, an operation that raises leaves the provider as it was.\<close>

lemma refresh_token_raise_keeps_provider:
  "refresh_token env p w = (Inl e, p', w') \<Longrightarrow> p' = p"
  by (auto simp: refresh_token_def Let_def
      split: option.splits if_splits prod.splits sum.splits)

lemma redeem_refresh_token_raise_keeps_provider:
  "redeem_refresh_token env p resource w = (Inl e, p', w') \<Longrightarrow> p' = p"
  by (auto simp: redeem_refresh_token_def
      split: option.splits if_splits prod.splits sum.splits)

text \<open>
  Claim C9. Let the session hold a refresh token, and let \<open>response\<close> be what the HTTP
  capability answers to the request of \<^verbatim>\<open>refresh_token\<close> (to the request of
  \<^verbatim>\<open>redeem_refresh_token\<close>). If \<^verbatim>\<open>send\<close> raises \<open>e\<close>, or the content does not parse and
  \<^verbatim>\<open>json.loads\<close> raises \<open>e\<close>, the operation raises \<open>e\<close>; if reading one of
  \<^verbatim>\<open>expires_in\<close>, \<^verbatim>\<open>access_token\<close>, \<^verbatim>\<open>refresh_token\<close> from the parsed response fails, the
  operation raises the error of such a failed read. In every one of these cases the provider
  afterwards is the provider before: no field of the stored session has changed.
\<close>

theorem refresh_atomic:
  assumes "p_session p = Some s" and "s_refresh_token s \<noteq> PNone"
    and "op_result = (if redeem then redeem_refresh_token env p resource w
                      else refresh_token env p w)"
    and "response = fst (http_provider env (sent w)
                           (if redeem then redeem_request p s resource else refresh_request s))"
  shows "(response = Inl e \<longrightarrow> fst op_result = Inl e \<and> fst (snd op_result) = p)
       \<and> (response = Inr c \<and> json_loads env c = Inl e \<longrightarrow>
            fst op_result = Inl e \<and> fst (snd op_result) = p)
       \<and> (response = Inr c \<and> json_loads env c = Inr rcont
            \<and> k \<in> {''expires_in'', ''access_token'', ''refresh_token''}
            \<and> py_getitem rcont k = Inl e \<longrightarrow>
            (\<exists>k' e'. k' \<in> {''expires_in'', ''access_token'', ''refresh_token''}
               \<and> py_getitem rcont k' = Inl e'
               \<and> fst op_result = Inl e' \<and> fst (snd op_result) = p))"
proof -
  have fails: "fst op_result = Inl x \<and> fst (snd op_result) = p"
    if "read_token_response env response = Inl x" for x
  proof (cases redeem)
    case True
    with that assms(3,4) redeem_refresh_token_read_fails [OF assms(1,2), of env w resource x]
    show ?thesis by simp
  next
    case False
    with that assms(3,4) refresh_token_read_fails [OF assms(1,2), of env w x]
    show ?thesis by simp
  qed
  have 1: "response = Inl e \<Longrightarrow> fst op_result = Inl e \<and> fst (snd op_result) = p"
    by (rule fails) (simp add: read_token_response_def bind_exc_def)
  have 2: "response = Inr c \<Longrightarrow> json_loads env c = Inl e
           \<Longrightarrow> fst op_result = Inl e \<and> fst (snd op_result) = p"
    by (rule fails) (simp add: read_token_response_def bind_exc_def)
  have 3: "\<exists>k' e'. k' \<in> {''expires_in'', ''access_token'', ''refresh_token''}
               \<and> py_getitem rcont k' = Inl e'
               \<and> fst op_result = Inl e' \<and> fst (snd op_result) = p"
    if "response = Inr c" "json_loads env c = Inr rcont"
       "k \<in> {''expires_in'', ''access_token'', ''refresh_token''}" "py_getitem rcont k = Inl e"
  proof -
    from read_token_response_missing [OF that(2,3,4)]
    obtain k' e' where k': "k' \<in> {''expires_in'', ''access_token'', ''refresh_token''}"
      "py_getitem rcont k' = Inl e'" "read_token_response env (Inr c) = Inl e'"
      by blast
    from k'(3) that(1) have "fst op_result = Inl e' \<and> fst (snd op_result) = p"
      by (intro fails) simp
    with k'(1,2) show ?thesis by blast
  qed
  from 1 2 3 show ?thesis by blast
qed

theorem refresh_atomic_witness:
  "fst (refresh_token ex_env_down ex_authed ex_world) = Inl (OtherError ''connection refused'')
   \<and> fst (snd (refresh_token ex_env_down ex_authed ex_world)) = ex_authed
   \<and> fst (redeem_refresh_token ex_env_html ex_authed (PStr ''res'') ex_world) =
       Inl (ValueError ''no JSON'')
   \<and> fst (snd (redeem_refresh_token ex_env_html ex_authed (PStr ''res'') ex_world)) = ex_authed
   \<and> fst (refresh_token ex_env_partial ex_authed ex_world) = Inl (KeyError ''refresh_token'')
   \<and> fst (snd (refresh_token ex_env_partial ex_authed ex_world)) = ex_authed"
proof -
  have s: "p_session ex_authed = Some ex_session" "s_refresh_token ex_session \<noteq> PNone"
    by (simp_all add: ex_authed_def ex_session_def)
  have down: "fst (http_provider ex_env_down (sent ex_world) (refresh_request ex_session))
                = Inl (OtherError ''connection refused'')"
    by (simp add: ex_env_down_def)
  have html: "fst (http_provider ex_env_html (sent ex_world)
                     (redeem_request ex_authed ex_session (PStr ''res''))) = Inr ''<html>''"
    "json_loads ex_env_html ''<html>'' = Inl (ValueError ''no JSON'')"
    by (simp_all add: ex_env_html_def ex_env_def ex_json_loads_def)
  have partial: "fst (http_provider ex_env_partial (sent ex_world) (refresh_request ex_session))
                   = Inr ''partial''"
    "json_loads ex_env_partial ''partial'' =
       Inr (PDict [(''expires_in'', PInt 3600), (''access_token'', PStr ''new'')])"
    by (simp_all add: ex_env_partial_def ex_env_def ex_json_loads_def)
  have missing: "py_getitem (PDict [(''expires_in'', PInt 3600), (''access_token'', PStr ''new'')]) k
                 = Inl e \<longleftrightarrow> k \<notin> {''expires_in'', ''access_token''} \<and> e = KeyError k" for k e
    by auto
  from refresh_atomic [OF s refl refl, where redeem = False and env = ex_env_down
         and w = ex_world and e = "OtherError ''connection refused''"] down
  have 1: "fst (refresh_token ex_env_down ex_authed ex_world) = Inl (OtherError ''connection refused'')
           \<and> fst (snd (refresh_token ex_env_down ex_authed ex_world)) = ex_authed"
    by simp
  from refresh_atomic [OF s refl refl, where redeem = True and env = ex_env_html
         and resource = "PStr ''res''" and w = ex_world and e = "ValueError ''no JSON''"
         and c = "''<html>''"] html
  have 2: "fst (redeem_refresh_token ex_env_html ex_authed (PStr ''res'') ex_world) =
             Inl (ValueError ''no JSON'')
           \<and> fst (snd (redeem_refresh_token ex_env_html ex_authed (PStr ''res'') ex_world)) = ex_authed"
    by simp
  from refresh_atomic [OF s refl refl, where redeem = False and env = ex_env_partial
         and w = ex_world and e = "KeyError ''refresh_token''" and c = "''partial''"
         and rcont = "PDict [(''expires_in'', PInt 3600), (''access_token'', PStr ''new'')]"
         and k = "''refresh_token''"]
       partial
  have 3: "fst (refresh_token ex_env_partial ex_authed ex_world) = Inl (KeyError ''refresh_token'')
           \<and> fst (snd (refresh_token ex_env_partial ex_authed ex_world)) = ex_authed"
    by (auto simp: missing)
  from 1 2 3 show ?thesis by blast
qed

subsection \<open>\<^verbatim>\<open>redeem_refresh_token\<close>: the session update\<close>

text \<open>
  Claim C3 fails on the code. The session holds the access token \<^verbatim>\<open>old\<close> and a refresh
  token; the response parses as JSON with \<^verbatim>\<open>expires_in\<close>, \<^verbatim>\<open>access_token = "new"\<close> and
  \<^verbatim>\<open>refresh_token\<close>. \<^verbatim>\<open>redeem_refresh_token\<close> passes four positional arguments, an empty
  string in the place of the access token, so the update raises and the stored access token
  is still \<^verbatim>\<open>old\<close>; \<^verbatim>\<open>refresh_token\<close>, on the same response, stores \<^verbatim>\<open>new\<close>.
\<close>

theorem redeem_refresh_token_keeps_old_access_token:
  "json_loads ex_env_token ''token'' = Inr ex_token_json
   \<and> py_getitem ex_token_json ''access_token'' = Inr (PStr ''new'')
   \<and> access_token ex_authed = PStr ''old''
   \<and> redeem_refresh_token ex_env_token ex_authed (PStr ''res'') ex_world =
       (Inl (TypeError ''refresh_session() got a wrong number of positional arguments''),
        ex_authed,
        ex_world\<lparr>now := 1, sent := [redeem_request ex_authed ex_session (PStr ''res'')]\<rparr>)
   \<and> access_token (fst (snd (redeem_refresh_token ex_env_token ex_authed (PStr ''res'') ex_world)))
       = PStr ''old''
   \<and> access_token (fst (snd (refresh_token ex_env_token ex_authed ex_world))) = PStr ''new''"
  by (simp add: redeem_refresh_token_def refresh_token_def send_def read_token_response_def
      bind_exc_def access_token_def ex_env_token_def ex_env_def ex_json_loads_def
      ex_token_json_def ex_authed_def ex_provider_def ex_session_def ex_world_def)

subsection \<open>\<^verbatim>\<open>authenticate_request\<close> with a session\<close>

lemma refresh_token_counts:
  "refresh_token_calls (snd (snd (refresh_token env p w))) = Suc (refresh_token_calls w)"
  by (auto simp: refresh_token_def send_def Let_def split: option.splits prod.splits sum.splits)

lemma refresh_token_returns_session:
  "refresh_token env p w = (Inr u, p', w') \<Longrightarrow> \<exists>s'. p_session p' = Some s'"
  by (auto simp: refresh_token_def Let_def
      split: option.splits if_splits prod.splits sum.splits)

text \<open>
  Claim C4 fails on the code as stated: the session exists and is expired, its refresh token
  is absent, so the one call of \<^verbatim>\<open>refresh_token\<close> raises and no header is appended.
\<close>

theorem authenticate_request_refresh_raises_counterexample:
  "p_session ex_authed_noref = Some ex_session_noref
   \<and> is_expired ex_session_noref (ex_world\<lparr>now := 20\<rparr>)
   \<and> authenticate_request ex_env_token ex_authed_noref [] (ex_world\<lparr>now := 20\<rparr>) =
       (Inl (RuntimeError msg_missing_refresh_token), ex_authed_noref, [],
        ex_world\<lparr>now := 20, refresh_token_calls := 1\<rparr>)"
  by (simp add: authenticate_request_def refresh_token_def is_expired_def ex_authed_noref_def
      ex_session_noref_def ex_session_def ex_provider_def ex_world_def)

text \<open>
  Claim C4, amended. With a session \<open>s\<close>, \<^verbatim>\<open>authenticate_request\<close> enters
  \<^verbatim>\<open>refresh_token\<close> exactly once when \<^verbatim>\<open>is_expired()\<close> holds and not at all otherwise. When
  the session is not expired, the call returns, provider and world are unchanged, and exactly
  one option is appended: the header \<^verbatim>\<open>Authorization\<close> with the value \<^verbatim>\<open>bearer\<close>, a space
  and the session's access token. When it is expired, provider and world are those one run of
  \<^verbatim>\<open>refresh_token\<close> leaves; if that run raises, the error is raised and the request is as
  before; if it returns, exactly one such header is appended, with the access token of the
  refreshed session.
\<close>

theorem authenticate_request_refreshes_once:
  assumes "p_session p = Some s"
    and "authenticate_request env p request w = (res, p', request', w')"
  shows "refresh_token_calls w' = refresh_token_calls w + (if is_expired s w then 1 else 0)
       \<and> (\<not> is_expired s w \<longrightarrow>
            res = Inr () \<and> p' = p \<and> w' = w
            \<and> request' = request @ [HeaderOption ''Authorization''
                                      (format_bearer env (s_access_token s))])
       \<and> (is_expired s w \<longrightarrow>
            (p', w') = snd (refresh_token env p w)
            \<and> (case fst (refresh_token env p w) of
                  Inl e \<Rightarrow> res = Inl e \<and> request' = request
                | Inr u \<Rightarrow> res = Inr () \<and> (\<exists>s'. p_session p' = Some s')
                           \<and> request' = request @ [HeaderOption ''Authorization''
                                                     (format_bearer env (access_token p'))]))
       \<and> (\<forall>t. format_bearer env (PStr t) = ''bearer '' @ t)"
proof (cases "is_expired s w")
  case False
  with assms show ?thesis
    by (simp add: authenticate_request_def attach_header_def append_option_def format_bearer_def)
next
  case True
  obtain r p1 w1 where r: "refresh_token env p w = (r, p1, w1)"
    by (cases "refresh_token env p w") auto
  have calls: "refresh_token_calls w1 = Suc (refresh_token_calls w)"
    using refresh_token_counts [of env p w] r by simp
  show ?thesis
  proof (cases r)
    case (Inl e)
    with assms True r calls show ?thesis
      by (auto simp: authenticate_request_def format_bearer_def)
  next
    case (Inr u)
    with r refresh_token_returns_session [of env p w u p1 w1]
    obtain s' where s': "p_session p1 = Some s'" by auto
    with assms True r calls Inr show ?thesis
      by (auto simp: authenticate_request_def attach_header_def append_option_def
          access_token_def format_bearer_def)
  qed
qed

theorem authenticate_request_refreshes_once_witness:
  "authenticate_request ex_env_token ex_authed [] ex_world =
     (Inr (), ex_authed, [HeaderOption ''Authorization'' ''bearer old''], ex_world)
   \<and> authenticate_request ex_env_token ex_authed [] (ex_world\<lparr>now := 20\<rparr>) =
     (Inr (),
      ex_authed\<lparr>p_session := Some (ex_session\<lparr>s_expires_at := 3621,
                                               s_access_token := PStr ''new'',
                                               s_refresh_token := PStr ''R2''\<rparr>)\<rparr>,
      [HeaderOption ''Authorization'' ''bearer new''],
      ex_world\<lparr>now := 21, sent := [refresh_request ex_session], refresh_token_calls := 1\<rparr>)"
proof -
  have s: "p_session ex_authed = Some ex_session"
    by (simp add: ex_authed_def)
  have fresh: "authenticate_request ex_env_token ex_authed [] ex_world =
     (Inr (), ex_authed, [HeaderOption ''Authorization'' ''bearer old''], ex_world)"
    by (simp add: authenticate_request_def attach_header_def append_option_def format_bearer_def
        is_expired_def ex_authed_def ex_session_def ex_world_def)
  have expired: "authenticate_request ex_env_token ex_authed [] (ex_world\<lparr>now := 20\<rparr>) =
     (Inr (),
      ex_authed\<lparr>p_session := Some (ex_session\<lparr>s_expires_at := 3621,
                                               s_access_token := PStr ''new'',
                                               s_refresh_token := PStr ''R2''\<rparr>)\<rparr>,
      [HeaderOption ''Authorization'' ''bearer new''],
      ex_world\<lparr>now := 21, sent := [refresh_request ex_session], refresh_token_calls := 1\<rparr>)"
    by (simp add: authenticate_request_def attach_header_def append_option_def format_bearer_def
        is_expired_def refresh_token_def send_def read_token_response_def bind_exc_def
        ex_env_token_def ex_env_def ex_json_loads_def ex_token_json_def
        ex_authed_def ex_provider_def ex_session_def ex_world_def)
  from authenticate_request_refreshes_once [OF s fresh]
    authenticate_request_refreshes_once [OF s expired] fresh expired
  show ?thesis by simp
qed

subsection \<open>\<^verbatim>\<open>authenticate\<close>: polling\<close>

text \<open>
  Claim C1 fails on the code. The initiation response is well formed and every poll is
  answered by a token document that parses, each call taking a second. \<^verbatim>\<open>authenticate\<close>
  raises at \<^verbatim>\<open>.str()\<close> and never polls. Started by hand after the initiation, with the
  values of that response (\<^verbatim>\<open>expires_in = 3\<close>, \<^verbatim>\<open>interval = 1\<close>), the polling half does not
  leave the loop at the first parsed response: it polls three times, until the deadline,
  then raises "Timed out waiting for user to verify"; the provider still has no session.
\<close>

theorem authenticate_polls_until_deadline:
  "authenticate ex_env ex_provider (PStr ''res'') ex_world =
     Some (Inl (AttributeError ''str'' ''str''), ex_provider,
           ex_world\<lparr>now := 1, sent := [ex_init_rq]\<rparr>)
   \<and> authenticate_poll ex_env ex_provider (PStr ''res'') ex_url (PStr ''D'') (PInt 3) (PInt 1)
       (ex_world\<lparr>now := 1, sent := [ex_init_rq], printed := [PStr ''visit the page'']\<rparr>) =
     Some (Inl (RuntimeError msg_timed_out), ex_provider,
           ex_world\<lparr>now := 4, sent := [ex_init_rq, ex_poll_rq, ex_poll_rq, ex_poll_rq],
                    printed := [PStr ''visit the page'']\<rparr>)
   \<and> p_session ex_provider = None"
proof -
  have "authenticate ex_env ex_provider (PStr ''res'') ex_world =
     Some (Inl (AttributeError ''str'' ''str''), ex_provider,
           ex_world\<lparr>now := 1, sent := [ex_init_rq]\<rparr>)"
    by (simp add: authenticate_def send_def read_init_def bind_exc_def py_call_str_def
        ex_env_def ex_json_loads_def ex_init_json_def ex_world_def ex_init_rq_def)
  moreover have "authenticate_poll ex_env ex_provider (PStr ''res'') ex_url (PStr ''D'')
       (PInt 3) (PInt 1)
       (ex_world\<lparr>now := 1, sent := [ex_init_rq], printed := [PStr ''visit the page'']\<rparr>) =
     Some (Inl (RuntimeError msg_timed_out), ex_provider,
           ex_world\<lparr>now := 4, sent := [ex_init_rq, ex_poll_rq, ex_poll_rq, ex_poll_rq],
                    printed := [PStr ''visit the page'']\<rparr>)"
    by (simp add: authenticate_poll_def poll_loop.simps send_def bind_exc_def time_sleep_def
        ex_env_def ex_json_loads_def ex_world_def ex_poll_rq_def)
  moreover have "p_session ex_provider = None"
    by (simp add: ex_provider_def)
  ultimately show ?thesis by blast
qed

text \<open>
  Claim C2 fails on the code. The initiation response leaves five seconds; the first poll
  fails and the second is answered, two seconds before the deadline, by a token document
  that parses. \<^verbatim>\<open>authenticate\<close> raises at \<^verbatim>\<open>.str()\<close> and never polls. Started by hand after
  the initiation at time 1, with the values of that response, the polling half has the parsed
  response in \<^verbatim>\<open>rcont\<close> at time 4, before the deadline 6, goes on polling, and raises "Timed
  out waiting for user to verify" at time 6, after four polls. And when every poll would
  fail, \<^verbatim>\<open>authenticate\<close> raises at \<^verbatim>\<open>.str()\<close> as well, not the timeout.
\<close>

theorem authenticate_poll_timeout_after_parsed_response:
  "authenticate ex_env_late ex_provider (PStr ''res'') ex_world =
     Some (Inl (AttributeError ''str'' ''str''), ex_provider,
           ex_world\<lparr>now := 1, sent := [ex_init_rq]\<rparr>)
   \<and> poll_loop ex_env_late ex_poll_rq (PInt 1) 6 PNone (ex_world_polling 1 []) =
       poll_loop ex_env_late ex_poll_rq (PInt 1) 6 ex_token_json
         (ex_world_polling 4 [ex_poll_rq, ex_poll_rq])
   \<and> now (ex_world_polling 4 [ex_poll_rq, ex_poll_rq]) < 6
   \<and> authenticate_poll ex_env_late ex_provider (PStr ''res'') ex_url (PStr ''D'')
       (PInt 5) (PInt 1) (ex_world_polling 1 []) =
     Some (Inl (RuntimeError msg_timed_out), ex_provider,
           ex_world_polling 6 [ex_poll_rq, ex_poll_rq, ex_poll_rq, ex_poll_rq])
   \<and> authenticate ex_env_polls_down ex_provider (PStr ''res'') ex_world =
     Some (Inl (AttributeError ''str'' ''str''), ex_provider,
           ex_world\<lparr>now := 1, sent := [ex_init_rq]\<rparr>)"
proof -
  have whole: "authenticate ex_env_late ex_provider (PStr ''res'') ex_world =
     Some (Inl (AttributeError ''str'' ''str''), ex_provider,
           ex_world\<lparr>now := 1, sent := [ex_init_rq]\<rparr>)"
    by (simp add: authenticate_def send_def read_init_def bind_exc_def py_call_str_def
        ex_env_late_def ex_init_json_long_def ex_world_def ex_init_rq_def)
  have first: "poll_loop ex_env_late ex_poll_rq (PInt 1) 6 PNone (ex_world_polling 1 []) =
       poll_loop ex_env_late ex_poll_rq (PInt 1) 6 PNone (ex_world_polling 3 [ex_poll_rq])"
    by (rule poll_loop_send_raises [where e = "OtherError ''connection refused''"
          and ?w1.0 = "ex_world_polling 2 [ex_poll_rq]"])
       (simp_all add: send_def time_sleep_def ex_env_late_def ex_world_polling_def)
  have second: "poll_loop ex_env_late ex_poll_rq (PInt 1) 6 PNone (ex_world_polling 3 [ex_poll_rq]) =
       poll_loop ex_env_late ex_poll_rq (PInt 1) 6 ex_token_json
         (ex_world_polling 4 [ex_poll_rq, ex_poll_rq])"
    by (rule poll_loop_parsed [where c = "''token''"])
       (simp_all add: send_def ex_env_late_def ex_json_loads_def ex_world_polling_def)
  have before: "now (ex_world_polling 4 [ex_poll_rq, ex_poll_rq]) < 6"
    by (simp add: ex_world_polling_def)
  have half: "authenticate_poll ex_env_late ex_provider (PStr ''res'') ex_url (PStr ''D'')
       (PInt 5) (PInt 1) (ex_world_polling 1 []) =
     Some (Inl (RuntimeError msg_timed_out), ex_provider,
           ex_world_polling 6 [ex_poll_rq, ex_poll_rq, ex_poll_rq, ex_poll_rq])"
    by (simp add: authenticate_poll_def poll_loop.simps send_def bind_exc_def time_sleep_def
        ex_env_late_def ex_json_loads_def ex_world_polling_def ex_poll_rq_def)
  have down: "authenticate ex_env_polls_down ex_provider (PStr ''res'') ex_world =
     Some (Inl (AttributeError ''str'' ''str''), ex_provider,
           ex_world\<lparr>now := 1, sent := [ex_init_rq]\<rparr>)"
    by (simp add: authenticate_def send_def read_init_def bind_exc_def py_call_str_def
        ex_env_polls_down_def ex_env_def ex_json_loads_def ex_init_json_def ex_world_def
        ex_init_rq_def)
  from whole first second before half down show ?thesis by simp
qed

end
